theory Spec2Isabelle
  imports Complex_Main "HOL-Library.AList" "HOL-Library.Monad_Syntax"
    "HOL-Library.Char_ord" "HOL-Library.List_Lexorder"
begin

section \<open>Decoded JSON values and the Python built-ins used by kismetParser.py\<close>

text \<open>
  A decoded line is whatever \<^verbatim>\<open>json.loads\<close> returns: \<^verbatim>\<open>None\<close>, a bool, an int, a
  float, a str, a list or a dict. A dict is an association list read with \<open>map_of\<close>.
  Strings are lists of 8-bit characters; case conversion and whitespace are the ASCII ones.
\<close>

datatype pyfloat = Finite rat | PosInf | NegInf | NaN

datatype json =
    JNull
  | JBool bool
  | JInt int
  | JFloat pyfloat
  | JStr string
  | JArr "json list"
  | JObj "(string \<times> json) list"

datatype exn =
    KeyError string
  | TypeError
  | ValueError
  | OverflowError
  | Warning string

datatype level = DEBUG | WARNING | ERROR

text \<open>
  What the interpreter and its libraries supply, and the program does not define:
  \<^verbatim>\<open>json.loads\<close> (\<open>None\<close> when it raises), \<^verbatim>\<open>str\<close> of a float, a list or a dict,
  the order in which \<^verbatim>\<open>list(set(xs))\<close> enumerates, and
  \<^verbatim>\<open>datetime.fromtimestamp(e).strftime(...)\<close> (\<open>None\<close> when it raises).
\<close>

record runtime =
  json_loads :: "string \<Rightarrow> json option"
  py_repr :: "json \<Rightarrow> string"
  set_order :: "string list \<Rightarrow> string list"
  fromtimestamp :: "int \<Rightarrow> string option"

definition is_space :: "char \<Rightarrow> bool" where
  "is_space c = (let n = (of_char c :: nat) in (9 \<le> n \<and> n \<le> 13) \<or> (28 \<le> n \<and> n \<le> 32))"

definition strip :: "string \<Rightarrow> string" where
  "strip s = rev (dropWhile is_space (rev (dropWhile is_space s)))"

definition upper_char :: "char \<Rightarrow> char" where
  "upper_char c = (let n = (of_char c :: nat) in if 97 \<le> n \<and> n \<le> 122 then char_of (n - 32) else c)"

definition lower_char :: "char \<Rightarrow> char" where
  "lower_char c = (let n = (of_char c :: nat) in if 65 \<le> n \<and> n \<le> 90 then char_of (n + 32) else c)"

definition upper :: "string \<Rightarrow> string" where
  "upper s = map upper_char s"

definition lower :: "string \<Rightarrow> string" where
  "lower s = map lower_char s"

definition digit_char :: "nat \<Rightarrow> char" where
  "digit_char d = char_of (48 + d)"

function str_nat :: "nat \<Rightarrow> string" where
  "str_nat n = (if n < 10 then [digit_char n] else str_nat (n div 10) @ [digit_char (n mod 10)])"
  by pat_completeness auto
termination
  by (relation "measure id") auto

declare str_nat.simps [simp del]

definition str_int :: "int \<Rightarrow> string" where
  "str_int i = (if i < 0 then CHR ''-'' # str_nat (nat (- i)) else str_nat (nat i))"

text \<open>\<^verbatim>\<open>str(v)\<close> for a decoded value.\<close>

definition py_str :: "runtime \<Rightarrow> json \<Rightarrow> string" where
  "py_str rt v =
     (case v of
        JNull \<Rightarrow> ''None''
      | JBool b \<Rightarrow> (if b then ''True'' else ''False'')
      | JInt i \<Rightarrow> str_int i
      | JStr s \<Rightarrow> s
      | _ \<Rightarrow> py_repr rt v)"

definition is_digit :: "char \<Rightarrow> bool" where
  "is_digit c = (let n = (of_char c :: nat) in 48 \<le> n \<and> n \<le> 57)"

definition digit_val :: "char \<Rightarrow> int" where
  "digit_val c = int (of_char c) - 48"

text \<open>
  The digits of \<^verbatim>\<open>int(s)\<close> after sign and whitespace: groups of decimal digits, single
  underscores allowed between two digits only.
\<close>

fun digits_val :: "int \<Rightarrow> string \<Rightarrow> int option" where
  "digits_val acc [] = Some acc"
| "digits_val acc [c] = (if is_digit c then Some (10 * acc + digit_val c) else None)"
| "digits_val acc (c # d # cs) =
     (if is_digit c then
        (if d = CHR ''_'' then
           (case cs of [] \<Rightarrow> None
            | e # _ \<Rightarrow> if is_digit e then digits_val (10 * acc + digit_val c) cs else None)
         else digits_val (10 * acc + digit_val c) (d # cs))
      else None)"

definition int_of_str :: "string \<Rightarrow> exn + int" where
  "int_of_str s =
     (let t = strip s;
          (sgn, body) = (case t of
                           c # cs \<Rightarrow> if c = CHR ''-'' then (- 1, cs)
                                     else if c = CHR ''+'' then (1, cs) else (1, t)
                         | [] \<Rightarrow> (1, t))
      in if body = [] then Inl ValueError
         else (case digits_val 0 body of None \<Rightarrow> Inl ValueError | Some n \<Rightarrow> Inr (sgn * n)))"

definition trunc :: "rat \<Rightarrow> int" where
  "trunc q = (if 0 \<le> q then \<lfloor>q\<rfloor> else \<lceil>q\<rceil>)"

text \<open>\<^verbatim>\<open>int(v)\<close> for a decoded value.\<close>

definition py_int :: "json \<Rightarrow> exn + int" where
  "py_int v =
     (case v of
        JInt i \<Rightarrow> Inr i
      | JBool b \<Rightarrow> Inr (if b then 1 else 0)
      | JFloat f \<Rightarrow> (case f of Finite q \<Rightarrow> Inr (trunc q)
                      | NaN \<Rightarrow> Inl ValueError
                      | _ \<Rightarrow> Inl OverflowError)
      | JStr s \<Rightarrow> int_of_str s
      | _ \<Rightarrow> Inl TypeError)"

text \<open>Truth value of a decoded value, as \<^verbatim>\<open>if v:\<close> tests it.\<close>

definition truthy :: "json \<Rightarrow> bool" where
  "truthy v =
     (case v of
        JNull \<Rightarrow> False
      | JBool b \<Rightarrow> b
      | JInt i \<Rightarrow> i \<noteq> 0
      | JFloat f \<Rightarrow> f \<noteq> Finite 0
      | JStr s \<Rightarrow> s \<noteq> []
      | JArr xs \<Rightarrow> xs \<noteq> []
      | JObj kvs \<Rightarrow> kvs \<noteq> [])"

text \<open>\<^verbatim>\<open>v[k]\<close> with a string key: only a dict holding the key answers.\<close>

definition getitem :: "json \<Rightarrow> string \<Rightarrow> exn + json" where
  "getitem v k =
     (case v of
        JObj kvs \<Rightarrow> (case map_of kvs k of None \<Rightarrow> Inl (KeyError k) | Some x \<Rightarrow> Inr x)
      | _ \<Rightarrow> Inl TypeError)"

text \<open>Inside \<^verbatim>\<open>try: ... except:\<close> every exception is the same failure.\<close>

definition caught :: "exn + 'a \<Rightarrow> 'a option" where
  "caught r = (case r of Inl _ \<Rightarrow> None | Inr x \<Rightarrow> Some x)"

definition item :: "json \<Rightarrow> string \<Rightarrow> json option" where
  "item v k = caught (getitem v k)"

definition int_item :: "json \<Rightarrow> string \<Rightarrow> int option" where
  "int_item v k = Option.bind (item v k) (\<lambda>x. caught (py_int x))"

section \<open>The parser object\<close>

record entry =
  firstTime :: int
  lastTime :: int
  manufacturer :: string
  rssi :: int

record bt_entry = entry +
  name :: string

record ap_entry = entry +
  channel :: int
  auth :: string
  essid :: string

record client_entry = entry +
  bssid :: string
  probedSsids :: "string list"

text \<open>
  The fields of \<^verbatim>\<open>KismetParser\<close>, with the records written by the module's logger.
  Each store is a dict in insertion order: \<open>map_of\<close> reads it and \<open>AList.update\<close>
  assigns to a key (in place when the key is there, at the end otherwise).
\<close>

record kp =
  devices :: "json list"
  bluetoothDevices :: "(string \<times> bt_entry) list"
  wirelessAps :: "(string \<times> ap_entry) list"
  wirelessClients :: "(string \<times> client_entry) list"
  logs :: "(level \<times> string) list"

definition emit :: "level \<Rightarrow> string \<Rightarrow> kp \<Rightarrow> kp" where
  "emit l msg st = st\<lparr>logs := logs st @ [(l, msg)]\<rparr>"

definition init :: kp where
  "init = \<lparr>devices = [], bluetoothDevices = [], wirelessAps = [], wirelessClients = [],
           logs = [(DEBUG, ''Kismet parser initialised'')]\<rparr>"

definition or_default :: "string \<Rightarrow> string \<Rightarrow> string" where
  "or_default d s = (if s = [] then d else s)"

text \<open>Lines 89-97, shared by the access point and the client: the signal never fails.\<close>

definition signal_rssi :: "runtime \<Rightarrow> json \<Rightarrow> int" where
  "signal_rssi rt device =
     (case do {
             sig \<leftarrow> item device ''kismet_device_base_signal'';
             ty \<leftarrow> item sig ''kismet.common.signal.type'';
             if lower (py_str rt ty) = ''none'' then Some 5000
             else do {
               sig' \<leftarrow> item device ''kismet_device_base_signal'';
               int_item sig' ''kismet.common.signal.max_signal''
             }
           } of
        None \<Rightarrow> 5000
      | Some r \<Rightarrow> r)"

subsection \<open>\<^verbatim>\<open>_processBluetooth\<close>\<close>

text \<open>
  Lines 38-54: the fields read under \<^verbatim>\<open>try\<close>, the address check and the defaults.
  \<open>Inl\<close> carries the warning with which the record is dropped.
\<close>

definition extractBluetooth :: "runtime \<Rightarrow> json \<Rightarrow> string + (string \<times> bt_entry)" where
  "extractBluetooth rt device =
     (case do {
             m \<leftarrow> item device ''kismet_device_base_macaddr'';
             ft \<leftarrow> int_item device ''kismet_device_base_first_time'';
             lt \<leftarrow> int_item device ''kismet_device_base_last_time'';
             mf \<leftarrow> item device ''kismet_device_base_manuf'';
             nm \<leftarrow> item device ''kismet_device_base_name'';
             Some (upper (py_str rt m), ft, lt, py_str rt mf, py_str rt nm)
           } of
        None \<Rightarrow> Inl ''Invalid bluetooth device record specified''
      | Some (mac, ft, lt, mf, nm) \<Rightarrow>
          if mac = [] then Inl ''Device without MAC address detected''
          else Inr (mac, \<lparr>firstTime = ft, lastTime = lt,
                          manufacturer = or_default ''Unknown'' mf, rssi = 5000,
                          name = or_default ''Unknown'' nm\<rparr>))"

text \<open>Lines 55-69.\<close>

definition mergeBluetooth :: "string \<Rightarrow> bt_entry \<Rightarrow> kp \<Rightarrow> kp" where
  "mergeBluetooth mac n st =
     (case map_of (bluetoothDevices st) mac of
        Some e \<Rightarrow>
          let new = e\<lparr>firstTime := min (firstTime n) (firstTime e),
                      lastTime := max (lastTime n) (lastTime e)\<rparr>;
              st' = (if manufacturer n \<noteq> manufacturer new \<or> name n \<noteq> name new
                     then emit WARNING (''Conflicting information for '' @ mac) st else st)
          in st'\<lparr>bluetoothDevices := AList.update mac new (bluetoothDevices st')\<rparr>
      | None \<Rightarrow> st\<lparr>bluetoothDevices := AList.update mac n (bluetoothDevices st)\<rparr>)"

definition processBluetooth :: "runtime \<Rightarrow> json \<Rightarrow> kp \<Rightarrow> kp" where
  "processBluetooth rt device st =
     (case extractBluetooth rt device of
        Inl w \<Rightarrow> emit WARNING w st
      | Inr (mac, n) \<Rightarrow> mergeBluetooth mac n st)"

subsection \<open>\<^verbatim>\<open>_processWirelessAp\<close>\<close>

text \<open>Lines 75-106.\<close>

definition extractWirelessAp :: "runtime \<Rightarrow> json \<Rightarrow> string + (string \<times> ap_entry)" where
  "extractWirelessAp rt device =
     (case do {
             m \<leftarrow> item device ''kismet_device_base_macaddr'';
             ft \<leftarrow> int_item device ''kismet_device_base_first_time'';
             lt \<leftarrow> int_item device ''kismet_device_base_last_time'';
             mf \<leftarrow> item device ''kismet_device_base_manuf'';
             ch \<leftarrow> int_item device ''kismet_device_base_channel'';
             au \<leftarrow> item device ''kismet_device_base_crypt'';
             d11 \<leftarrow> item device ''dot11_device'';
             rec \<leftarrow> item d11 ''dot11.device.last_beaconed_ssid_record'';
             es \<leftarrow> item rec ''dot11.advertisedssid.ssid'';
             Some (upper (py_str rt m), ft, lt, py_str rt mf, ch, py_str rt au, py_str rt es)
           } of
        None \<Rightarrow> Inl ''Invalid wireless access point device record specified''
      | Some (mac, ft, lt, mf, ch, au, es) \<Rightarrow>
          let r = signal_rssi rt device in
          if mac = [] then Inl ''Device without MAC address detected''
          else Inr (mac, \<lparr>firstTime = ft, lastTime = lt,
                          manufacturer = or_default ''Unknown'' mf, rssi = r,
                          channel = ch, auth = or_default ''Unknown'' au,
                          essid = or_default ''Unknown SSID'' es\<rparr>))"

text \<open>Lines 107-125.\<close>

definition mergeWirelessAp :: "string \<Rightarrow> ap_entry \<Rightarrow> kp \<Rightarrow> kp" where
  "mergeWirelessAp mac n st =
     (case map_of (wirelessAps st) mac of
        Some e \<Rightarrow>
          let new = e\<lparr>firstTime := min (firstTime n) (firstTime e),
                      lastTime := max (lastTime n) (lastTime e),
                      rssi := (if \<bar>rssi n\<bar> < \<bar>rssi e\<bar> then rssi n else rssi e)\<rparr>;
              st' = (if manufacturer n \<noteq> manufacturer new \<or> essid n \<noteq> essid new \<or>
                        channel n \<noteq> channel new \<or> auth n \<noteq> auth new
                     then emit WARNING (''Conflicting information for '' @ mac) st else st)
          in st'\<lparr>wirelessAps := AList.update mac new (wirelessAps st')\<rparr>
      | None \<Rightarrow> st\<lparr>wirelessAps := AList.update mac n (wirelessAps st)\<rparr>)"

definition processWirelessAp :: "runtime \<Rightarrow> json \<Rightarrow> kp \<Rightarrow> kp" where
  "processWirelessAp rt device st =
     (case extractWirelessAp rt device of
        Inl w \<Rightarrow> emit WARNING w st
      | Inr (mac, n) \<Rightarrow> mergeWirelessAp mac n st)"

subsection \<open>\<^verbatim>\<open>_processWirelessClient\<close>\<close>

text \<open>Lines 137-147: the probed SSID, when the record has one.\<close>

definition probed :: "runtime \<Rightarrow> json \<Rightarrow> string list option" where
  "probed rt device =
     do {
       d11 \<leftarrow> item device ''dot11_device'';
       (case d11 of
          JObj kvs \<Rightarrow>
            if ''dot11.device.last_probed_ssid_record'' \<in> fst ` set kvs then
              do {
                rec \<leftarrow> item d11 ''dot11.device.last_probed_ssid_record'';
                s \<leftarrow> item rec ''dot11.probedssid.ssid'';
                if truthy s then Some [py_str rt s] else Some [''Unknown SSID'']
              }
            else Some []
        | _ \<Rightarrow> None)
     }"

text \<open>Lines 131-166.\<close>

definition extractWirelessClient :: "runtime \<Rightarrow> json \<Rightarrow> string + (string \<times> client_entry)" where
  "extractWirelessClient rt device =
     (case do {
             m \<leftarrow> item device ''kismet_device_base_macaddr'';
             ft \<leftarrow> int_item device ''kismet_device_base_first_time'';
             lt \<leftarrow> int_item device ''kismet_device_base_last_time'';
             mf \<leftarrow> item device ''kismet_device_base_manuf'';
             d11 \<leftarrow> item device ''dot11_device'';
             bs \<leftarrow> item d11 ''dot11.device.last_bssid'';
             ps \<leftarrow> probed rt device;
             Some (upper (py_str rt m), ft, lt, py_str rt mf, py_str rt bs, ps)
           } of
        None \<Rightarrow> Inl ''Invalid wireless client device record specified''
      | Some (mac, ft, lt, mf, bs, ps) \<Rightarrow>
          let r = signal_rssi rt device in
          if mac = [] then Inl ''Device without MAC address detected''
          else Inr (mac, \<lparr>firstTime = ft, lastTime = lt,
                          manufacturer = or_default ''Unknown'' mf, rssi = r,
                          bssid = or_default ''Unknown'' bs, probedSsids = ps\<rparr>))"

text \<open>Lines 167-184.\<close>

definition mergeWirelessClient :: "runtime \<Rightarrow> string \<Rightarrow> client_entry \<Rightarrow> kp \<Rightarrow> kp" where
  "mergeWirelessClient rt mac n st =
     (case map_of (wirelessClients st) mac of
        Some e \<Rightarrow>
          let new = e\<lparr>firstTime := min (firstTime n) (firstTime e),
                      lastTime := max (lastTime n) (lastTime e),
                      probedSsids := set_order rt (probedSsids n @ probedSsids e),
                      rssi := (if \<bar>rssi n\<bar> < \<bar>rssi e\<bar> then rssi n else rssi e)\<rparr>;
              st' = (if manufacturer n \<noteq> manufacturer new \<or> bssid n \<noteq> bssid new
                     then emit WARNING (''Conflicting information for '' @ mac) st else st)
          in st'\<lparr>wirelessClients := AList.update mac new (wirelessClients st')\<rparr>
      | None \<Rightarrow> st\<lparr>wirelessClients := AList.update mac n (wirelessClients st)\<rparr>)"

definition processWirelessClient :: "runtime \<Rightarrow> json \<Rightarrow> kp \<Rightarrow> kp" where
  "processWirelessClient rt device st =
     (case extractWirelessClient rt device of
        Inl w \<Rightarrow> emit WARNING w st
      | Inr (mac, n) \<Rightarrow> mergeWirelessClient rt mac n st)"

section \<open>\<^verbatim>\<open>addFile\<close> and \<^verbatim>\<open>parse\<close>\<close>


definition quoted :: "string \<Rightarrow> string" where
  "quoted s = CHR 0x27 # s @ [CHR 0x27]"



text \<open>Lines 362-374: the loop of \<^verbatim>\<open>parse\<close>. No exception is caught here.\<close>

fun parse_loop :: "runtime \<Rightarrow> json list \<Rightarrow> kp \<Rightarrow> exn option \<times> kp" where
  "parse_loop rt [] st = (None, st)"
| "parse_loop rt (device # ds) st =
     (case getitem device ''kismet_device_base_type'' of
        Inl e \<Rightarrow> (Some e, st)
      | Inr t \<Rightarrow>
          if t = JStr ''BTLE'' then parse_loop rt ds (processBluetooth rt device st)
          else if t = JStr ''Wi-Fi AP'' then parse_loop rt ds (processWirelessAp rt device st)
          else if t = JStr ''Wi-Fi Client'' then
            parse_loop rt ds (processWirelessClient rt device st)
          else
            (case t of
               JStr s \<Rightarrow>
                 parse_loop rt ds
                   (emit WARNING (''Device of unrecognised type '' @ quoted s @ '' detected'') st)
             | _ \<Rightarrow> (Some TypeError, st)))"

definition parse :: "runtime \<Rightarrow> kp \<Rightarrow> exn option \<times> kp" where
  "parse rt st =
     (let st1 = emit DEBUG ''Initiated parsing of device data'' st
      in case parse_loop rt (devices st1) st1 of
           (None, st2) \<Rightarrow> (None, emit DEBUG ''Parsing complete'' st2)
         | (Some e, st2) \<Rightarrow> (Some e, st2))"

section \<open>The rows of the reports\<close>

text \<open>
  The rows each report hands to \<^verbatim>\<open>tabulate\<close> (lines 207-221, 251-267, 296-312), sorted.
  \<open>None\<close> stands for an exception inside the \<^verbatim>\<open>try\<close>, which ends the report with a
  \<^verbatim>\<open>Warning\<close>. Opening the output file and \<^verbatim>\<open>tabulate\<close> itself are not modelled;
  with an empty store a report returns before it builds any row.
\<close>

datatype cell = CStr string | CInt int

definition cell_str :: "cell \<Rightarrow> string" where
  "cell_str c = (case c of CStr s \<Rightarrow> s | CInt i \<Rightarrow> str_int i)"

definition rssi_cell :: "int \<Rightarrow> cell" where
  "rssi_cell r = (if \<bar>r\<bar> > 255 then CStr ''Unknown'' else CInt r)"

definition row_key :: "cell list \<Rightarrow> string" where
  "row_key x = cell_str (last x) @ '' '' @ cell_str (hd x)"


definition bluetoothRow :: "runtime \<Rightarrow> string \<times> bt_entry \<Rightarrow> cell list option" where
  "bluetoothRow rt p =
     (case p of (mac, e) \<Rightarrow>
        do {
          f \<leftarrow> fromtimestamp rt (firstTime e);
          l \<leftarrow> fromtimestamp rt (lastTime e);
          Some [CStr mac, CStr f, CStr l, CStr (manufacturer e), CStr (name e),
                rssi_cell (rssi e)]
        })"



definition bluetoothRows :: "runtime \<Rightarrow> kp \<Rightarrow> cell list list option" where
  "bluetoothRows rt st =
     map_option (sort_key row_key) (those (map (bluetoothRow rt) (bluetoothDevices st)))"



section \<open>A runtime and records for evaluating examples\<close>

text \<open>
  A decoder that knows the empty object only, a fixed text for \<^verbatim>\<open>str\<close> of floats, lists
  and dicts, first-occurrence order for \<^verbatim>\<open>list(set(xs))\<close>, and the epoch in decimal for a
  timestamp.
\<close>

definition loads0 :: "string \<Rightarrow> json option" where
  "loads0 s = (if strip s = ''{}'' then Some (JObj []) else None)"

definition rt0 :: runtime where
  "rt0 = \<lparr>json_loads = loads0, py_repr = (\<lambda>_. ''<repr>''), set_order = remdups,
          fromtimestamp = (\<lambda>e. Some (str_int e))\<rparr>"


definition bt_blank :: json where
  "bt_blank = JObj [(''kismet_device_base_type'', JStr ''BTLE''),
     (''kismet_device_base_macaddr'', JStr ''aa:bb:cc:dd:ee:ff''),
     (''kismet_device_base_first_time'', JInt 1000),
     (''kismet_device_base_last_time'', JInt 2000),
     (''kismet_device_base_manuf'', JStr []),
     (''kismet_device_base_name'', JStr [])]"


definition ap_blank :: json where
  "ap_blank = JObj [(''kismet_device_base_type'', JStr ''Wi-Fi AP''),
     (''kismet_device_base_macaddr'', JStr ''00:11:22:33:44:55''),
     (''kismet_device_base_first_time'', JInt 1000),
     (''kismet_device_base_last_time'', JInt 2000),
     (''kismet_device_base_manuf'', JStr []),
     (''kismet_device_base_channel'', JStr ''6''),
     (''kismet_device_base_crypt'', JStr []),
     (''dot11_device'', JObj [(''dot11.device.last_beaconed_ssid_record'',
         JObj [(''dot11.advertisedssid.ssid'', JStr [])])]),
     (''kismet_device_base_signal'', JObj [(''kismet.common.signal.type'', JStr ''None'')])]"

definition client_blank :: json where
  "client_blank = JObj [(''kismet_device_base_type'', JStr ''Wi-Fi Client''),
     (''kismet_device_base_macaddr'', JStr ''66:77:88:99:aa:bb''),
     (''kismet_device_base_first_time'', JInt 1000),
     (''kismet_device_base_last_time'', JInt 2000),
     (''kismet_device_base_manuf'', JStr []),
     (''dot11_device'', JObj [(''dot11.device.last_bssid'', JStr []),
        (''dot11.device.last_probed_ssid_record'',
           JObj [(''dot11.probedssid.ssid'', JStr ''cafe'')])]),
     (''kismet_device_base_signal'', JObj [(''kismet.common.signal.type'', JStr ''dbm''),
        (''kismet.common.signal.max_signal'', JInt (- 60))])]"

definition phoneA :: bt_entry where
  "phoneA = \<lparr>firstTime = 1000, lastTime = 1000, manufacturer = ''Acme'', rssi = 5000,
              name = ''PhoneA''\<rparr>"

definition phoneB :: bt_entry where
  "phoneB = \<lparr>firstTime = 2000, lastTime = 2000, manufacturer = ''Acme'', rssi = 5000,
              name = ''PhoneB''\<rparr>"

definition ap_near :: ap_entry where
  "ap_near = \<lparr>firstTime = 1000, lastTime = 2000, manufacturer = ''Acme'', rssi = - 40,
               channel = 6, auth = ''WPA2'', essid = ''home''\<rparr>"

definition ap_far :: ap_entry where
  "ap_far = \<lparr>firstTime = 1500, lastTime = 2500, manufacturer = ''Acme'', rssi = - 70,
              channel = 6, auth = ''WPA2'', essid = ''home''\<rparr>"

definition ap_silent :: ap_entry where
  "ap_silent = \<lparr>firstTime = 1200, lastTime = 1300, manufacturer = ''Acme'', rssi = 5000,
                 channel = 6, auth = ''WPA2'', essid = ''home''\<rparr>"

definition client_a :: client_entry where
  "client_a = \<lparr>firstTime = 1000, lastTime = 2000, manufacturer = ''Acme'', rssi = - 60,
                bssid = ''00:11:22:33:44:55'', probedSsids = [''cafe'']\<rparr>"

definition client_b :: client_entry where
  "client_b = \<lparr>firstTime = 900, lastTime = 1100, manufacturer = ''Acme'', rssi = 5000,
                bssid = ''00:11:22:33:44:66'', probedSsids = [''cafe'', ''office'']\<rparr>"

definition ap_implausible :: json where
  "ap_implausible = JObj [(''kismet_device_base_type'', JStr ''Wi-Fi AP''),
     (''kismet_device_base_macaddr'', JStr ''00:11:22:33:44:55''),
     (''kismet_device_base_first_time'', JInt 3000),
     (''kismet_device_base_last_time'', JInt 4000),
     (''kismet_device_base_manuf'', JStr []),
     (''kismet_device_base_channel'', JInt 6),
     (''kismet_device_base_crypt'', JStr []),
     (''dot11_device'', JObj [(''dot11.device.last_beaconed_ssid_record'',
         JObj [(''dot11.advertisedssid.ssid'', JStr [])])]),
     (''kismet_device_base_signal'', JObj [(''kismet.common.signal.type'', JStr ''dbm''),
        (''kismet.common.signal.max_signal'', JInt (- 6000))])]"

definition one_of_each :: kp where
  "one_of_each = init\<lparr>bluetoothDevices := [(''AA:BB:CC:DD:EE:FF'', phoneA)],
                      wirelessAps := [(''AA:BB:CC:DD:EE:FF'', ap_near)],
                      wirelessClients := [(''AA:BB:CC:DD:EE:FF'', client_a)]\<rparr>"

definition bt_later :: json where
  "bt_later = JObj [(''kismet_device_base_type'', JStr ''BTLE''),
     (''kismet_device_base_macaddr'', JStr ''AA:BB:CC:DD:EE:FF''),
     (''kismet_device_base_first_time'', JInt 1500),
     (''kismet_device_base_last_time'', JInt 2500),
     (''kismet_device_base_manuf'', JStr ''Acme''),
     (''kismet_device_base_name'', JStr ''PhoneB'')]"

definition client_later :: json where
  "client_later = JObj [(''kismet_device_base_type'', JStr ''Wi-Fi Client''),
     (''kismet_device_base_macaddr'', JStr ''66:77:88:99:AA:BB''),
     (''kismet_device_base_first_time'', JInt 1500),
     (''kismet_device_base_last_time'', JInt 2500),
     (''kismet_device_base_manuf'', JStr ''Acme''),
     (''dot11_device'', JObj [(''dot11.device.last_bssid'', JStr ''00:11:22:33:44:55'')])]"


definition three_devices :: kp where
  "three_devices = init\<lparr>devices := [bt_blank, ap_blank, client_blank]\<rparr>"

section \<open>Reading input files\<close>







section \<open>Classification\<close>

text \<open>
  C2 at a record with no declared type, and at one whose declared type is the number 5:
  \<^verbatim>\<open>parse\<close> raises \<^verbatim>\<open>KeyError\<close> (or \<^verbatim>\<open>TypeError\<close> while it builds the warning), logs
  no warning, and processes none of the records after it.
\<close>

theorem parse_missing_type_raises:
  "parse rt (st\<lparr>devices := JObj [] # ds\<rparr>) =
     (Some (KeyError ''kismet_device_base_type''),
      emit DEBUG ''Initiated parsing of device data'' (st\<lparr>devices := JObj [] # ds\<rparr>)) \<and>
   parse rt (st\<lparr>devices := JObj [(''kismet_device_base_type'', JInt 5)] # ds\<rparr>) =
     (Some TypeError,
      emit DEBUG ''Initiated parsing of device data''
        (st\<lparr>devices := JObj [(''kismet_device_base_type'', JInt 5)] # ds\<rparr>))"
  by (simp add: parse_def emit_def getitem_def)

section \<open>Extraction\<close>




text \<open>A defaultable field that is absent makes the record invalid.\<close>

lemma extractBluetooth_absent:
  assumes "item d ''kismet_device_base_manuf'' = None \<or> item d ''kismet_device_base_name'' = None"
  shows "extractBluetooth rt d = Inl ''Invalid bluetooth device record specified''"
  using assms by (auto simp add: extractBluetooth_def split: Option.bind_splits)

lemma extractWirelessAp_absent:
  assumes "item d ''kismet_device_base_manuf'' = None \<or> item d ''kismet_device_base_crypt'' = None
     \<or> Option.bind (Option.bind (item d ''dot11_device'')
            (\<lambda>x. item x ''dot11.device.last_beaconed_ssid_record''))
          (\<lambda>x. item x ''dot11.advertisedssid.ssid'') = None"
  shows "extractWirelessAp rt d = Inl ''Invalid wireless access point device record specified''"
  using assms by (auto simp add: extractWirelessAp_def split: Option.bind_splits)

lemma extractWirelessClient_absent:
  assumes "item d ''kismet_device_base_manuf'' = None
     \<or> Option.bind (item d ''dot11_device'') (\<lambda>x. item x ''dot11.device.last_bssid'') = None"
  shows "extractWirelessClient rt d = Inl ''Invalid wireless client device record specified''"
  using assms by (auto simp add: extractWirelessClient_def split: Option.bind_splits)



lemma upper_mac1: "upper ''aa:bb:cc:dd:ee:ff'' = ''AA:BB:CC:DD:EE:FF''"
  by code_simp

lemma upper_mac2: "upper ''00:11:22:33:44:55'' = ''00:11:22:33:44:55''"
  by code_simp

lemma upper_mac3: "upper ''66:77:88:99:aa:bb'' = ''66:77:88:99:AA:BB''"
  by code_simp

lemma int_of_str_6: "int_of_str ''6'' = Inr 6"
  by code_simp

lemma lower_dbm: "lower ''dbm'' = ''dbm''"
  by code_simp

lemma lower_None: "lower ''None'' = ''none''"
  by code_simp

lemmas eval_item = item_def int_item_def caught_def getitem_def py_int_def py_str_def



section \<open>Merging\<close>

lemma mergeBluetooth_existing:
  assumes "map_of (bluetoothDevices st) mac = Some e"
  shows "mergeBluetooth mac n st =
    (if manufacturer n \<noteq> manufacturer e \<or> name n \<noteq> name e
     then emit WARNING (''Conflicting information for '' @ mac) st else st)
    \<lparr>bluetoothDevices := AList.update mac
        (e\<lparr>firstTime := min (firstTime n) (firstTime e),
           lastTime := max (lastTime n) (lastTime e)\<rparr>) (bluetoothDevices st)\<rparr>"
  using assms by (simp add: mergeBluetooth_def Let_def emit_def)

lemma mergeBluetooth_new:
  assumes "map_of (bluetoothDevices st) mac = None"
  shows "mergeBluetooth mac n st = st\<lparr>bluetoothDevices := AList.update mac n (bluetoothDevices st)\<rparr>"
  using assms by (simp add: mergeBluetooth_def)

lemma mergeWirelessAp_existing:
  assumes "map_of (wirelessAps st) mac = Some e"
  shows "mergeWirelessAp mac n st =
    (if manufacturer n \<noteq> manufacturer e \<or> essid n \<noteq> essid e \<or> channel n \<noteq> channel e \<or>
        auth n \<noteq> auth e
     then emit WARNING (''Conflicting information for '' @ mac) st else st)
    \<lparr>wirelessAps := AList.update mac
        (e\<lparr>firstTime := min (firstTime n) (firstTime e),
           lastTime := max (lastTime n) (lastTime e),
           rssi := (if \<bar>rssi n\<bar> < \<bar>rssi e\<bar> then rssi n else rssi e)\<rparr>) (wirelessAps st)\<rparr>"
  using assms by (simp add: mergeWirelessAp_def Let_def emit_def)

lemma mergeWirelessAp_new:
  assumes "map_of (wirelessAps st) mac = None"
  shows "mergeWirelessAp mac n st = st\<lparr>wirelessAps := AList.update mac n (wirelessAps st)\<rparr>"
  using assms by (simp add: mergeWirelessAp_def)

lemma mergeWirelessClient_existing:
  assumes "map_of (wirelessClients st) mac = Some e"
  shows "mergeWirelessClient rt mac n st =
    (if manufacturer n \<noteq> manufacturer e \<or> bssid n \<noteq> bssid e
     then emit WARNING (''Conflicting information for '' @ mac) st else st)
    \<lparr>wirelessClients := AList.update mac
        (e\<lparr>firstTime := min (firstTime n) (firstTime e),
           lastTime := max (lastTime n) (lastTime e),
           probedSsids := set_order rt (probedSsids n @ probedSsids e),
           rssi := (if \<bar>rssi n\<bar> < \<bar>rssi e\<bar> then rssi n else rssi e)\<rparr>) (wirelessClients st)\<rparr>"
  using assms by (simp add: mergeWirelessClient_def Let_def emit_def)

lemma mergeWirelessClient_new:
  assumes "map_of (wirelessClients st) mac = None"
  shows "mergeWirelessClient rt mac n st =
     st\<lparr>wirelessClients := AList.update mac n (wirelessClients st)\<rparr>"
  using assms by (simp add: mergeWirelessClient_def)

lemma emit_stores [simp]:
  "bluetoothDevices (emit l m st) = bluetoothDevices st"
  "wirelessAps (emit l m st) = wirelessAps st"
  "wirelessClients (emit l m st) = wirelessClients st"
  "devices (emit l m st) = devices st"
  "logs (emit l m st) = logs st @ [(l, m)]"
  by (simp_all add: emit_def)

text \<open>
  C4, as amended. Merging a new access point or client record into the entry stored
  under its address: when the entry holds the sentinel 5000 and the new reading has
  magnitude below 5000, the merged signal is the new reading; when the new record holds
  the sentinel and the entry's reading has magnitude at most 5000, the merged signal is
  the entry's; and of any two readings the one of smaller magnitude is kept, the
  entry's on a tie.
\<close>

theorem merged_signal:
  "(map_of (wirelessAps st) mac = Some e \<longrightarrow>
      (\<exists>e'. map_of (wirelessAps (mergeWirelessAp mac n st)) mac = Some e' \<and>
         (rssi e = 5000 \<and> \<bar>rssi n\<bar> < 5000 \<longrightarrow> rssi e' = rssi n) \<and>
         (rssi n = 5000 \<and> \<bar>rssi e\<bar> \<le> 5000 \<longrightarrow> rssi e' = rssi e) \<and>
         (\<bar>rssi n\<bar> < \<bar>rssi e\<bar> \<longrightarrow> rssi e' = rssi n) \<and>
         (\<bar>rssi e\<bar> \<le> \<bar>rssi n\<bar> \<longrightarrow> rssi e' = rssi e))) \<and>
   (map_of (wirelessClients st) mac = Some c \<longrightarrow>
      (\<exists>c'. map_of (wirelessClients (mergeWirelessClient rt mac m st)) mac = Some c' \<and>
         (rssi c = 5000 \<and> \<bar>rssi m\<bar> < 5000 \<longrightarrow> rssi c' = rssi m) \<and>
         (rssi m = 5000 \<and> \<bar>rssi c\<bar> \<le> 5000 \<longrightarrow> rssi c' = rssi c) \<and>
         (\<bar>rssi m\<bar> < \<bar>rssi c\<bar> \<longrightarrow> rssi c' = rssi m) \<and>
         (\<bar>rssi c\<bar> \<le> \<bar>rssi m\<bar> \<longrightarrow> rssi c' = rssi c)))"
  by (simp add: mergeWirelessAp_existing mergeWirelessClient_existing update_conv')

theorem merged_signal_witness:
  "map_option rssi (map_of (wirelessAps
      (mergeWirelessAp ''AA'' ap_near (init\<lparr>wirelessAps := [(''AA'', ap_silent)]\<rparr>))) ''AA'') =
     Some (- 40) \<and>
   map_option rssi (map_of (wirelessAps
      (mergeWirelessAp ''AA'' ap_silent (init\<lparr>wirelessAps := [(''AA'', ap_near)]\<rparr>))) ''AA'') =
     Some (- 40) \<and>
   map_option rssi (map_of (wirelessAps
      (mergeWirelessAp ''AA'' ap_near (init\<lparr>wirelessAps := [(''AA'', ap_far)]\<rparr>))) ''AA'') =
     Some (- 40) \<and>
   map_option rssi (map_of (wirelessClients
      (mergeWirelessClient rt0 ''CC'' client_b (init\<lparr>wirelessClients := [(''CC'', client_a)]\<rparr>)))
      ''CC'') = Some (- 60)"
proof -
  have r: "rssi ap_near = - 40" "rssi ap_silent = 5000" "rssi ap_far = - 70"
    "rssi client_a = - 60" "rssi client_b = 5000"
    by (simp_all add: ap_near_def ap_silent_def ap_far_def client_a_def client_b_def)
  have 1: "map_of (wirelessAps (init\<lparr>wirelessAps := [(''AA'', ap_silent)]\<rparr>)) ''AA'' = Some ap_silent"
    and 2: "map_of (wirelessAps (init\<lparr>wirelessAps := [(''AA'', ap_near)]\<rparr>)) ''AA'' = Some ap_near"
    and 3: "map_of (wirelessAps (init\<lparr>wirelessAps := [(''AA'', ap_far)]\<rparr>)) ''AA'' = Some ap_far"
    and 4: "map_of (wirelessClients (init\<lparr>wirelessClients := [(''CC'', client_a)]\<rparr>)) ''CC'' =
         Some client_a"
    and 0: "map_of (wirelessAps (init\<lparr>wirelessClients := [(''CC'', client_a)]\<rparr>)) ''CC'' = None"
    by (simp_all add: init_def)
  from merged_signal [of "init\<lparr>wirelessAps := [(''AA'', ap_silent)]\<rparr>" "''AA''" ap_silent ap_near]
    merged_signal [of "init\<lparr>wirelessAps := [(''AA'', ap_near)]\<rparr>" "''AA''" ap_near ap_silent]
    merged_signal [of "init\<lparr>wirelessAps := [(''AA'', ap_far)]\<rparr>" "''AA''" ap_far ap_near]
    merged_signal [of "init\<lparr>wirelessClients := [(''CC'', client_a)]\<rparr>" "''CC''" _ _
       client_a rt0 client_b]
  show ?thesis
    unfolding 1 2 3 4 r by auto
qed


lemma extract_ap_blank:
  "extractWirelessAp rt0 ap_blank =
     Inr (''00:11:22:33:44:55'',
          \<lparr>firstTime = 1000, lastTime = 2000, manufacturer = ''Unknown'', rssi = 5000,
           channel = 6, auth = ''Unknown'', essid = ''Unknown SSID''\<rparr>)"
  by (simp add: extractWirelessAp_def signal_rssi_def ap_blank_def eval_item or_default_def
      upper_mac2 int_of_str_6 lower_None)

lemma extract_ap_implausible:
  "extractWirelessAp rt0 ap_implausible =
     Inr (''00:11:22:33:44:55'',
          \<lparr>firstTime = 3000, lastTime = 4000, manufacturer = ''Unknown'', rssi = - 6000,
           channel = 6, auth = ''Unknown'', essid = ''Unknown SSID''\<rparr>)"
  by (simp add: extractWirelessAp_def signal_rssi_def ap_implausible_def eval_item
      or_default_def upper_mac2 lower_dbm)

text \<open>
  C4 as stated fails: the stored signal is the sentinel, the new record carries the
  reading -6000, and the merged signal is still 5000.
\<close>

theorem sentinel_kept_counterexample:
  "map_option rssi (map_of (wirelessAps (processWirelessAp rt0 ap_blank init))
      ''00:11:22:33:44:55'') = Some 5000 \<and>
   extractWirelessAp rt0 ap_implausible =
     Inr (''00:11:22:33:44:55'',
          \<lparr>firstTime = 3000, lastTime = 4000, manufacturer = ''Unknown'', rssi = - 6000,
           channel = 6, auth = ''Unknown'', essid = ''Unknown SSID''\<rparr>) \<and>
   map_option rssi (map_of (wirelessAps
      (processWirelessAp rt0 ap_implausible (processWirelessAp rt0 ap_blank init)))
      ''00:11:22:33:44:55'') = Some 5000"
  by (simp add: processWirelessAp_def extract_ap_blank extract_ap_implausible
      mergeWirelessAp_def init_def)

text \<open>
  C5. A merge into an existing entry keeps the entry's identity fields, and logs the
  conflict warning for the address exactly when some identity field of the new record
  differs from the entry's.
\<close>

theorem identity_fields_kept:
  "(map_of (bluetoothDevices st) mac = Some b \<longrightarrow>
      (\<exists>b'. map_of (bluetoothDevices (mergeBluetooth mac nb st)) mac = Some b' \<and>
         manufacturer b' = manufacturer b \<and> name b' = name b) \<and>
      logs (mergeBluetooth mac nb st) = logs st @
        (if manufacturer nb \<noteq> manufacturer b \<or> name nb \<noteq> name b
         then [(WARNING, ''Conflicting information for '' @ mac)] else [])) \<and>
   (map_of (wirelessAps st) mac = Some a \<longrightarrow>
      (\<exists>a'. map_of (wirelessAps (mergeWirelessAp mac na st)) mac = Some a' \<and>
         manufacturer a' = manufacturer a \<and> essid a' = essid a \<and>
         channel a' = channel a \<and> auth a' = auth a) \<and>
      logs (mergeWirelessAp mac na st) = logs st @
        (if manufacturer na \<noteq> manufacturer a \<or> essid na \<noteq> essid a \<or>
            channel na \<noteq> channel a \<or> auth na \<noteq> auth a
         then [(WARNING, ''Conflicting information for '' @ mac)] else [])) \<and>
   (map_of (wirelessClients st) mac = Some c \<longrightarrow>
      (\<exists>c'. map_of (wirelessClients (mergeWirelessClient rt mac nc st)) mac = Some c' \<and>
         manufacturer c' = manufacturer c \<and> bssid c' = bssid c) \<and>
      logs (mergeWirelessClient rt mac nc st) = logs st @
        (if manufacturer nc \<noteq> manufacturer c \<or> bssid nc \<noteq> bssid c
         then [(WARNING, ''Conflicting information for '' @ mac)] else []))"
  by (simp add: mergeBluetooth_existing mergeWirelessAp_existing mergeWirelessClient_existing
      update_conv')

theorem identity_fields_kept_witness:
  "map_of (bluetoothDevices (mergeBluetooth ''AA:BB:CC:DD:EE:FF'' phoneB one_of_each))
      ''AA:BB:CC:DD:EE:FF'' =
     Some \<lparr>firstTime = 1000, lastTime = 2000, manufacturer = ''Acme'', rssi = 5000,
           name = ''PhoneA''\<rparr> \<and>
   logs (mergeBluetooth ''AA:BB:CC:DD:EE:FF'' phoneB one_of_each) =
     logs one_of_each @ [(WARNING, ''Conflicting information for AA:BB:CC:DD:EE:FF'')] \<and>
   logs (mergeWirelessAp ''AA:BB:CC:DD:EE:FF'' ap_far one_of_each) = logs one_of_each \<and>
   logs (mergeWirelessClient rt0 ''AA:BB:CC:DD:EE:FF'' client_b one_of_each) =
     logs one_of_each @ [(WARNING, ''Conflicting information for AA:BB:CC:DD:EE:FF'')]"
proof -
  have h: "map_of (bluetoothDevices one_of_each) ''AA:BB:CC:DD:EE:FF'' = Some phoneA"
    "map_of (wirelessAps one_of_each) ''AA:BB:CC:DD:EE:FF'' = Some ap_near"
    "map_of (wirelessClients one_of_each) ''AA:BB:CC:DD:EE:FF'' = Some client_a"
    by (simp_all add: one_of_each_def)
  have m: "map_of (bluetoothDevices (mergeBluetooth ''AA:BB:CC:DD:EE:FF'' phoneB one_of_each))
      ''AA:BB:CC:DD:EE:FF'' =
     Some \<lparr>firstTime = 1000, lastTime = 2000, manufacturer = ''Acme'', rssi = 5000,
           name = ''PhoneA''\<rparr>"
    by (simp add: mergeBluetooth_existing [OF h(1)] update_conv' phoneA_def phoneB_def)
  from identity_fields_kept [of one_of_each "''AA:BB:CC:DD:EE:FF''" phoneA phoneB ap_near ap_far
      client_a rt0 client_b] h m
  show ?thesis
    by (simp add: phoneA_def phoneB_def ap_near_def ap_far_def client_a_def client_b_def)
qed

section \<open>Time ranges\<close>

lemma upper_mac4: "upper ''AA:BB:CC:DD:EE:FF'' = ''AA:BB:CC:DD:EE:FF''"
  by code_simp

lemma upper_mac5: "upper ''66:77:88:99:AA:BB'' = ''66:77:88:99:AA:BB''"
  by code_simp

lemma extract_bt_blank:
  "extractBluetooth rt0 bt_blank =
     Inr (''AA:BB:CC:DD:EE:FF'',
          \<lparr>firstTime = 1000, lastTime = 2000, manufacturer = ''Unknown'', rssi = 5000,
           name = ''Unknown''\<rparr>)"
  by (simp add: extractBluetooth_def bt_blank_def eval_item or_default_def upper_mac1)

lemma extract_bt_later:
  "extractBluetooth rt0 bt_later =
     Inr (''AA:BB:CC:DD:EE:FF'',
          \<lparr>firstTime = 1500, lastTime = 2500, manufacturer = ''Acme'', rssi = 5000,
           name = ''PhoneB''\<rparr>)"
  by (simp add: extractBluetooth_def bt_later_def eval_item or_default_def upper_mac4)

lemma extract_client_blank:
  "extractWirelessClient rt0 client_blank =
     Inr (''66:77:88:99:AA:BB'',
          \<lparr>firstTime = 1000, lastTime = 2000, manufacturer = ''Unknown'', rssi = - 60,
           bssid = ''Unknown'', probedSsids = [''cafe'']\<rparr>)"
  by (simp add: extractWirelessClient_def probed_def signal_rssi_def client_blank_def eval_item
      truthy_def or_default_def upper_mac3 lower_dbm)

lemma extract_client_later:
  "extractWirelessClient rt0 client_later =
     Inr (''66:77:88:99:AA:BB'',
          \<lparr>firstTime = 1500, lastTime = 2500, manufacturer = ''Acme'', rssi = 5000,
           bssid = ''00:11:22:33:44:55'', probedSsids = []\<rparr>)"
  by (simp add: extractWirelessClient_def probed_def signal_rssi_def client_later_def eval_item
      or_default_def upper_mac5)

lemma processBluetooth_valid:
  "extractBluetooth rt d = Inr (mac, n) \<Longrightarrow> processBluetooth rt d st = mergeBluetooth mac n st"
  by (simp add: processBluetooth_def)

lemma processWirelessAp_valid:
  "extractWirelessAp rt d = Inr (mac, n) \<Longrightarrow> processWirelessAp rt d st = mergeWirelessAp mac n st"
  by (simp add: processWirelessAp_def)

lemma processWirelessClient_valid:
  "extractWirelessClient rt d = Inr (mac, n) \<Longrightarrow>
   processWirelessClient rt d st = mergeWirelessClient rt mac n st"
  by (simp add: processWirelessClient_def)

lemma times_bluetooth:
  assumes "extractBluetooth rt d1 = Inr (mac, a)" and "extractBluetooth rt d2 = Inr (mac, b)"
    and "map_of (bluetoothDevices st) mac = None"
  shows "\<exists>e. map_of (bluetoothDevices (processBluetooth rt d2 (processBluetooth rt d1 st))) mac
            = Some e \<and>
          firstTime e = min (firstTime a) (firstTime b) \<and>
          lastTime e = max (lastTime a) (lastTime b)"
proof -
  have 1: "processBluetooth rt d1 st = st\<lparr>bluetoothDevices := AList.update mac a (bluetoothDevices st)\<rparr>"
    using assms by (simp add: processBluetooth_valid mergeBluetooth_new)
  have 2: "map_of (bluetoothDevices (processBluetooth rt d1 st)) mac = Some a"
    by (simp add: 1 update_conv')
  show ?thesis
    unfolding processBluetooth_valid [OF assms(2)] mergeBluetooth_existing [OF 2]
    by (simp add: update_conv' min.commute max.commute)
qed

lemma times_wirelessAp:
  assumes "extractWirelessAp rt d1 = Inr (mac, a)" and "extractWirelessAp rt d2 = Inr (mac, b)"
    and "map_of (wirelessAps st) mac = None"
  shows "\<exists>e. map_of (wirelessAps (processWirelessAp rt d2 (processWirelessAp rt d1 st))) mac
            = Some e \<and>
          firstTime e = min (firstTime a) (firstTime b) \<and>
          lastTime e = max (lastTime a) (lastTime b)"
proof -
  have 1: "processWirelessAp rt d1 st = st\<lparr>wirelessAps := AList.update mac a (wirelessAps st)\<rparr>"
    using assms by (simp add: processWirelessAp_valid mergeWirelessAp_new)
  have 2: "map_of (wirelessAps (processWirelessAp rt d1 st)) mac = Some a"
    by (simp add: 1 update_conv')
  show ?thesis
    unfolding processWirelessAp_valid [OF assms(2)] mergeWirelessAp_existing [OF 2]
    by (simp add: update_conv' min.commute max.commute)
qed

lemma times_wirelessClient:
  assumes "extractWirelessClient rt d1 = Inr (mac, a)"
    and "extractWirelessClient rt d2 = Inr (mac, b)"
    and "map_of (wirelessClients st) mac = None"
  shows "\<exists>e. map_of (wirelessClients
              (processWirelessClient rt d2 (processWirelessClient rt d1 st))) mac = Some e \<and>
          firstTime e = min (firstTime a) (firstTime b) \<and>
          lastTime e = max (lastTime a) (lastTime b)"
proof -
  have 1: "processWirelessClient rt d1 st =
      st\<lparr>wirelessClients := AList.update mac a (wirelessClients st)\<rparr>"
    using assms by (simp add: processWirelessClient_valid mergeWirelessClient_new)
  have 2: "map_of (wirelessClients (processWirelessClient rt d1 st)) mac = Some a"
    by (simp add: 1 update_conv')
  show ?thesis
    unfolding processWirelessClient_valid [OF assms(2)] mergeWirelessClient_existing [OF 2]
    by (simp add: update_conv' min.commute max.commute)
qed

text \<open>
  C6. Two valid records of one class with the same address, processed into a store
  that has no entry for the address: in either order the entry's \<open>firstTime\<close> is the
  smaller of the two first times and its \<open>lastTime\<close> the larger of the two last times.
\<close>

theorem time_range_either_order:
  "(extractBluetooth rt b1 = Inr (mac, x) \<and> extractBluetooth rt b2 = Inr (mac, y) \<and>
    map_of (bluetoothDevices st) mac = None \<longrightarrow>
      (\<exists>e. map_of (bluetoothDevices (processBluetooth rt b2 (processBluetooth rt b1 st))) mac
              = Some e \<and>
           firstTime e = min (firstTime x) (firstTime y) \<and>
           lastTime e = max (lastTime x) (lastTime y)) \<and>
      (\<exists>e. map_of (bluetoothDevices (processBluetooth rt b1 (processBluetooth rt b2 st))) mac
              = Some e \<and>
           firstTime e = min (firstTime x) (firstTime y) \<and>
           lastTime e = max (lastTime x) (lastTime y))) \<and>
   (extractWirelessAp rt a1 = Inr (mac, x') \<and> extractWirelessAp rt a2 = Inr (mac, y') \<and>
    map_of (wirelessAps st) mac = None \<longrightarrow>
      (\<exists>e. map_of (wirelessAps (processWirelessAp rt a2 (processWirelessAp rt a1 st))) mac
              = Some e \<and>
           firstTime e = min (firstTime x') (firstTime y') \<and>
           lastTime e = max (lastTime x') (lastTime y')) \<and>
      (\<exists>e. map_of (wirelessAps (processWirelessAp rt a1 (processWirelessAp rt a2 st))) mac
              = Some e \<and>
           firstTime e = min (firstTime x') (firstTime y') \<and>
           lastTime e = max (lastTime x') (lastTime y'))) \<and>
   (extractWirelessClient rt c1 = Inr (mac, x'') \<and>
    extractWirelessClient rt c2 = Inr (mac, y'') \<and>
    map_of (wirelessClients st) mac = None \<longrightarrow>
      (\<exists>e. map_of (wirelessClients
                (processWirelessClient rt c2 (processWirelessClient rt c1 st))) mac = Some e \<and>
           firstTime e = min (firstTime x'') (firstTime y'') \<and>
           lastTime e = max (lastTime x'') (lastTime y'')) \<and>
      (\<exists>e. map_of (wirelessClients
                (processWirelessClient rt c1 (processWirelessClient rt c2 st))) mac = Some e \<and>
           firstTime e = min (firstTime x'') (firstTime y'') \<and>
           lastTime e = max (lastTime x'') (lastTime y'')))"
proof (intro conjI impI)
  assume h: "extractBluetooth rt b1 = Inr (mac, x) \<and> extractBluetooth rt b2 = Inr (mac, y) \<and>
    map_of (bluetoothDevices st) mac = None"
  show "\<exists>e. map_of (bluetoothDevices (processBluetooth rt b2 (processBluetooth rt b1 st))) mac
              = Some e \<and>
           firstTime e = min (firstTime x) (firstTime y) \<and>
           lastTime e = max (lastTime x) (lastTime y)"
    using times_bluetooth [of rt b1 mac x b2 y st] h by simp
  show "\<exists>e. map_of (bluetoothDevices (processBluetooth rt b1 (processBluetooth rt b2 st))) mac
              = Some e \<and>
           firstTime e = min (firstTime x) (firstTime y) \<and>
           lastTime e = max (lastTime x) (lastTime y)"
    using times_bluetooth [of rt b2 mac y b1 x st] h by (simp add: min.commute max.commute)
next
  assume h: "extractWirelessAp rt a1 = Inr (mac, x') \<and> extractWirelessAp rt a2 = Inr (mac, y') \<and>
    map_of (wirelessAps st) mac = None"
  show "\<exists>e. map_of (wirelessAps (processWirelessAp rt a2 (processWirelessAp rt a1 st))) mac
              = Some e \<and>
           firstTime e = min (firstTime x') (firstTime y') \<and>
           lastTime e = max (lastTime x') (lastTime y')"
    using times_wirelessAp [of rt a1 mac x' a2 y' st] h by simp
  show "\<exists>e. map_of (wirelessAps (processWirelessAp rt a1 (processWirelessAp rt a2 st))) mac
              = Some e \<and>
           firstTime e = min (firstTime x') (firstTime y') \<and>
           lastTime e = max (lastTime x') (lastTime y')"
    using times_wirelessAp [of rt a2 mac y' a1 x' st] h by (simp add: min.commute max.commute)
next
  assume h: "extractWirelessClient rt c1 = Inr (mac, x'') \<and>
    extractWirelessClient rt c2 = Inr (mac, y'') \<and>
    map_of (wirelessClients st) mac = None"
  show "\<exists>e. map_of (wirelessClients
                (processWirelessClient rt c2 (processWirelessClient rt c1 st))) mac = Some e \<and>
           firstTime e = min (firstTime x'') (firstTime y'') \<and>
           lastTime e = max (lastTime x'') (lastTime y'')"
    using times_wirelessClient [of rt c1 mac x'' c2 y'' st] h by simp
  show "\<exists>e. map_of (wirelessClients
                (processWirelessClient rt c1 (processWirelessClient rt c2 st))) mac = Some e \<and>
           firstTime e = min (firstTime x'') (firstTime y'') \<and>
           lastTime e = max (lastTime x'') (lastTime y'')"
    using times_wirelessClient [of rt c2 mac y'' c1 x'' st] h
    by (simp add: min.commute max.commute)
qed


theorem time_range_either_order_witness:
  "map_option (\<lambda>e. (firstTime e, lastTime e))
     (map_of (bluetoothDevices (processBluetooth rt0 bt_later (processBluetooth rt0 bt_blank init)))
        ''AA:BB:CC:DD:EE:FF'') = Some (1000, 2500) \<and>
   map_option (\<lambda>e. (firstTime e, lastTime e))
     (map_of (bluetoothDevices (processBluetooth rt0 bt_blank (processBluetooth rt0 bt_later init)))
        ''AA:BB:CC:DD:EE:FF'') = Some (1000, 2500) \<and>
   map_option (\<lambda>e. (firstTime e, lastTime e))
     (map_of (wirelessAps
        (processWirelessAp rt0 ap_implausible (processWirelessAp rt0 ap_blank init)))
        ''00:11:22:33:44:55'') = Some (1000, 4000) \<and>
   map_option (\<lambda>e. (firstTime e, lastTime e))
     (map_of (wirelessClients
        (processWirelessClient rt0 client_blank (processWirelessClient rt0 client_later init)))
        ''66:77:88:99:AA:BB'') = Some (1000, 2500)"
proof -
  have none: "map_of (bluetoothDevices init) ''AA:BB:CC:DD:EE:FF'' = None"
    "map_of (wirelessAps init) ''00:11:22:33:44:55'' = None"
    "map_of (wirelessClients init) ''66:77:88:99:AA:BB'' = None"
    by (simp_all add: init_def)
  note t = time_range_either_order [where rt = rt0 and st = init]
  from t [THEN conjunct1, of bt_blank "''AA:BB:CC:DD:EE:FF''"
      "\<lparr>firstTime = 1000, lastTime = 2000, manufacturer = ''Unknown'', rssi = 5000,
        name = ''Unknown''\<rparr>" bt_later
      "\<lparr>firstTime = 1500, lastTime = 2500, manufacturer = ''Acme'', rssi = 5000,
        name = ''PhoneB''\<rparr>"]
    extract_bt_blank extract_bt_later none(1)
  have b: "map_option (\<lambda>e. (firstTime e, lastTime e))
     (map_of (bluetoothDevices (processBluetooth rt0 bt_later (processBluetooth rt0 bt_blank init)))
        ''AA:BB:CC:DD:EE:FF'') = Some (1000, 2500) \<and>
   map_option (\<lambda>e. (firstTime e, lastTime e))
     (map_of (bluetoothDevices (processBluetooth rt0 bt_blank (processBluetooth rt0 bt_later init)))
        ''AA:BB:CC:DD:EE:FF'') = Some (1000, 2500)"
    by auto
  from t [THEN conjunct2, THEN conjunct1, of ap_blank "''00:11:22:33:44:55''"
      "\<lparr>firstTime = 1000, lastTime = 2000, manufacturer = ''Unknown'', rssi = 5000,
        channel = 6, auth = ''Unknown'', essid = ''Unknown SSID''\<rparr>" ap_implausible
      "\<lparr>firstTime = 3000, lastTime = 4000, manufacturer = ''Unknown'', rssi = - 6000,
        channel = 6, auth = ''Unknown'', essid = ''Unknown SSID''\<rparr>"]
    extract_ap_blank extract_ap_implausible none(2)
  have a: "map_option (\<lambda>e. (firstTime e, lastTime e))
     (map_of (wirelessAps
        (processWirelessAp rt0 ap_implausible (processWirelessAp rt0 ap_blank init)))
        ''00:11:22:33:44:55'') = Some (1000, 4000)"
    by auto
  from t [THEN conjunct2, THEN conjunct2, of client_later "''66:77:88:99:AA:BB''"
      "\<lparr>firstTime = 1500, lastTime = 2500, manufacturer = ''Acme'', rssi = 5000,
        bssid = ''00:11:22:33:44:55'', probedSsids = []\<rparr>" client_blank
      "\<lparr>firstTime = 1000, lastTime = 2000, manufacturer = ''Unknown'', rssi = - 60,
        bssid = ''Unknown'', probedSsids = [''cafe'']\<rparr>"]
    extract_client_blank extract_client_later none(3)
  have c: "map_option (\<lambda>e. (firstTime e, lastTime e))
     (map_of (wirelessClients
        (processWirelessClient rt0 client_blank (processWirelessClient rt0 client_later init)))
        ''66:77:88:99:AA:BB'') = Some (1000, 2500)"
    by auto
  from a b c show ?thesis by simp
qed

section \<open>Idempotence\<close>

lemma again_bluetooth:
  assumes "extractBluetooth rt d = Inr (mac, n)"
  shows "bluetoothDevices (processBluetooth rt d (processBluetooth rt d st)) =
         bluetoothDevices (processBluetooth rt d st)"
proof (cases "map_of (bluetoothDevices st) mac")
  case None
  have 1: "map_of (bluetoothDevices (mergeBluetooth mac n st)) mac = Some n"
    by (simp add: mergeBluetooth_new [OF None] update_conv')
  show ?thesis
    unfolding processBluetooth_valid [OF assms] mergeBluetooth_existing [OF 1]
    by (simp add: mergeBluetooth_new [OF None])
next
  case (Some e)
  have 1: "map_of (bluetoothDevices (mergeBluetooth mac n st)) mac =
      Some (e\<lparr>firstTime := min (firstTime n) (firstTime e),
              lastTime := max (lastTime n) (lastTime e)\<rparr>)"
    by (simp add: mergeBluetooth_existing [OF Some] update_conv')
  show ?thesis
    unfolding processBluetooth_valid [OF assms] mergeBluetooth_existing [OF 1]
    by (simp add: mergeBluetooth_existing [OF Some])
qed

lemma again_wirelessAp:
  assumes "extractWirelessAp rt d = Inr (mac, n)"
  shows "wirelessAps (processWirelessAp rt d (processWirelessAp rt d st)) =
         wirelessAps (processWirelessAp rt d st)"
proof (cases "map_of (wirelessAps st) mac")
  case None
  have 1: "map_of (wirelessAps (mergeWirelessAp mac n st)) mac = Some n"
    by (simp add: mergeWirelessAp_new [OF None] update_conv')
  show ?thesis
    unfolding processWirelessAp_valid [OF assms] mergeWirelessAp_existing [OF 1]
    by (simp add: mergeWirelessAp_new [OF None])
next
  case (Some e)
  have 1: "map_of (wirelessAps (mergeWirelessAp mac n st)) mac =
      Some (e\<lparr>firstTime := min (firstTime n) (firstTime e),
              lastTime := max (lastTime n) (lastTime e),
              rssi := (if \<bar>rssi n\<bar> < \<bar>rssi e\<bar> then rssi n else rssi e)\<rparr>)"
    by (simp add: mergeWirelessAp_existing [OF Some] update_conv')
  show ?thesis
    unfolding processWirelessAp_valid [OF assms] mergeWirelessAp_existing [OF 1]
    by (simp add: mergeWirelessAp_existing [OF Some])
qed

lemma again_wirelessClient:
  assumes "extractWirelessClient rt d = Inr (mac, n)"
    and "\<forall>xs. set (set_order rt xs) = set xs"
  shows "\<exists>e1 e2.
      map_of (wirelessClients (processWirelessClient rt d st)) mac = Some e1 \<and>
      map_of (wirelessClients (processWirelessClient rt d (processWirelessClient rt d st))) mac
        = Some e2 \<and>
      e2\<lparr>probedSsids := probedSsids e1\<rparr> = e1 \<and>
      set (probedSsids e2) = set (probedSsids e1)"
proof (cases "map_of (wirelessClients st) mac")
  case None
  have 1: "map_of (wirelessClients (mergeWirelessClient rt mac n st)) mac = Some n"
    by (simp add: mergeWirelessClient_new [OF None] update_conv')
  show ?thesis
    unfolding processWirelessClient_valid [OF assms(1)] mergeWirelessClient_existing [OF 1]
    using assms(2) by (simp add: mergeWirelessClient_new [OF None] update_conv')
next
  case (Some e)
  have 1: "map_of (wirelessClients (mergeWirelessClient rt mac n st)) mac =
      Some (e\<lparr>firstTime := min (firstTime n) (firstTime e),
              lastTime := max (lastTime n) (lastTime e),
              probedSsids := set_order rt (probedSsids n @ probedSsids e),
              rssi := (if \<bar>rssi n\<bar> < \<bar>rssi e\<bar> then rssi n else rssi e)\<rparr>)"
    by (simp add: mergeWirelessClient_existing [OF Some] update_conv')
  show ?thesis
    unfolding processWirelessClient_valid [OF assms(1)] mergeWirelessClient_existing [OF 1]
    using assms(2) by (simp add: mergeWirelessClient_existing [OF Some] update_conv')
qed

text \<open>
  C7. Processing a valid record a second time right after the first leaves the store
  of its class as it is; for a client the entry is the same but for the order of
  \<open>probedSsids\<close>, which holds the same SSIDs (given that \<^verbatim>\<open>list(set(xs))\<close> enumerates
  exactly the elements of \<^verbatim>\<open>xs\<close>).
\<close>

theorem processing_twice:
  "(extractBluetooth rt b = Inr (mac, x) \<longrightarrow>
      bluetoothDevices (processBluetooth rt b (processBluetooth rt b st)) =
      bluetoothDevices (processBluetooth rt b st)) \<and>
   (extractWirelessAp rt a = Inr (mac, y) \<longrightarrow>
      wirelessAps (processWirelessAp rt a (processWirelessAp rt a st)) =
      wirelessAps (processWirelessAp rt a st)) \<and>
   (extractWirelessClient rt c = Inr (mac, z) \<and> (\<forall>xs. set (set_order rt xs) = set xs) \<longrightarrow>
      (\<exists>e1 e2.
         map_of (wirelessClients (processWirelessClient rt c st)) mac = Some e1 \<and>
         map_of (wirelessClients (processWirelessClient rt c (processWirelessClient rt c st))) mac
           = Some e2 \<and>
         e2\<lparr>probedSsids := probedSsids e1\<rparr> = e1 \<and>
         set (probedSsids e2) = set (probedSsids e1)))"
  using again_bluetooth [of rt b mac x st] again_wirelessAp [of rt a mac y st]
    again_wirelessClient [of rt c mac z st]
  by blast

theorem processing_twice_witness:
  "bluetoothDevices (processBluetooth rt0 bt_blank (processBluetooth rt0 bt_blank init)) =
     bluetoothDevices (processBluetooth rt0 bt_blank init) \<and>
   bluetoothDevices (processBluetooth rt0 bt_blank init) =
     [(''AA:BB:CC:DD:EE:FF'',
       \<lparr>firstTime = 1000, lastTime = 2000, manufacturer = ''Unknown'', rssi = 5000,
        name = ''Unknown''\<rparr>)] \<and>
   wirelessAps (processWirelessAp rt0 ap_blank (processWirelessAp rt0 ap_blank init)) =
     wirelessAps (processWirelessAp rt0 ap_blank init) \<and>
   map_option (set \<circ> probedSsids)
     (map_of (wirelessClients
        (processWirelessClient rt0 client_blank (processWirelessClient rt0 client_blank init)))
        ''66:77:88:99:AA:BB'') = Some {''cafe''}"
proof -
  have s: "\<forall>xs. set (set_order rt0 xs) = set xs"
    by (simp add: rt0_def)
  have 1: "map_of (wirelessClients (processWirelessClient rt0 client_blank init))
      ''66:77:88:99:AA:BB'' =
     Some \<lparr>firstTime = 1000, lastTime = 2000, manufacturer = ''Unknown'', rssi = - 60,
           bssid = ''Unknown'', probedSsids = [''cafe'']\<rparr>"
    by (simp add: processWirelessClient_valid [OF extract_client_blank] mergeWirelessClient_def
        init_def)
  have 2: "bluetoothDevices (processBluetooth rt0 bt_blank init) =
     [(''AA:BB:CC:DD:EE:FF'',
       \<lparr>firstTime = 1000, lastTime = 2000, manufacturer = ''Unknown'', rssi = 5000,
        name = ''Unknown''\<rparr>)]"
    by (simp add: processBluetooth_valid [OF extract_bt_blank] mergeBluetooth_def init_def)
  note t = processing_twice [where rt = rt0 and st = init]
  from t [THEN conjunct1, of bt_blank "''AA:BB:CC:DD:EE:FF''"
      "\<lparr>firstTime = 1000, lastTime = 2000, manufacturer = ''Unknown'', rssi = 5000,
        name = ''Unknown''\<rparr>"] extract_bt_blank
  have b: "bluetoothDevices (processBluetooth rt0 bt_blank (processBluetooth rt0 bt_blank init)) =
     bluetoothDevices (processBluetooth rt0 bt_blank init)"
    by simp
  from t [THEN conjunct2, THEN conjunct1, of ap_blank "''00:11:22:33:44:55''"
      "\<lparr>firstTime = 1000, lastTime = 2000, manufacturer = ''Unknown'', rssi = 5000,
        channel = 6, auth = ''Unknown'', essid = ''Unknown SSID''\<rparr>"] extract_ap_blank
  have a: "wirelessAps (processWirelessAp rt0 ap_blank (processWirelessAp rt0 ap_blank init)) =
     wirelessAps (processWirelessAp rt0 ap_blank init)"
    by simp
  from t [THEN conjunct2, THEN conjunct2, of client_blank "''66:77:88:99:AA:BB''"
      "\<lparr>firstTime = 1000, lastTime = 2000, manufacturer = ''Unknown'', rssi = - 60,
        bssid = ''Unknown'', probedSsids = [''cafe'']\<rparr>"] extract_client_blank s 1
  have c: "map_option (set \<circ> probedSsids)
     (map_of (wirelessClients
        (processWirelessClient rt0 client_blank (processWirelessClient rt0 client_blank init)))
        ''66:77:88:99:AA:BB'') = Some {''cafe''}"
    by auto
  from a b c 2 show ?thesis by simp
qed

section \<open>The time-range invariant\<close>

lemma set_update_subset: "set (AList.update k v al) \<subseteq> insert (k, v) (set al)"
  by (induction al) auto

lemma update_all:
  assumes "\<forall>p\<in>set al. P (snd p)" and "P v"
  shows "\<forall>p\<in>set (AList.update k v al). P (snd p)"
  using assms set_update_subset [of k v al] by fastforce




lemma processBluetooth_frame [simp]:
  "wirelessAps (processBluetooth rt d st) = wirelessAps st"
  "wirelessClients (processBluetooth rt d st) = wirelessClients st"
  by (simp_all add: processBluetooth_def mergeBluetooth_def Let_def
      split: sum.splits option.splits prod.splits)

lemma processWirelessAp_frame [simp]:
  "bluetoothDevices (processWirelessAp rt d st) = bluetoothDevices st"
  "wirelessClients (processWirelessAp rt d st) = wirelessClients st"
  by (simp_all add: processWirelessAp_def mergeWirelessAp_def Let_def
      split: sum.splits option.splits prod.splits)

lemma processWirelessClient_frame [simp]:
  "bluetoothDevices (processWirelessClient rt d st) = bluetoothDevices st"
  "wirelessAps (processWirelessClient rt d st) = wirelessAps st"
  by (simp_all add: processWirelessClient_def mergeWirelessClient_def Let_def
      split: sum.splits option.splits prod.splits)





lemma parse_loop_step:
  "(\<exists>e. parse_loop rt (d # ds) st = (Some e, st)) \<or>
   (\<exists>st'. parse_loop rt (d # ds) st = parse_loop rt ds st' \<and>
      (st' = processBluetooth rt d st \<or> st' = processWirelessAp rt d st \<or>
       st' = processWirelessClient rt d st \<or> (\<exists>m. st' = emit WARNING m st)))"
  by (cases "getitem d ''kismet_device_base_type''") (auto split: json.splits)



lemma type_bt_blank: "getitem bt_blank ''kismet_device_base_type'' = Inr (JStr ''BTLE'')"
  by (simp add: bt_blank_def getitem_def)

lemma type_ap_blank: "getitem ap_blank ''kismet_device_base_type'' = Inr (JStr ''Wi-Fi AP'')"
  by (simp add: ap_blank_def getitem_def)

lemma type_client_blank:
  "getitem client_blank ''kismet_device_base_type'' = Inr (JStr ''Wi-Fi Client'')"
  by (simp add: client_blank_def getitem_def)

lemma parse_three_devices:
  "fst (parse rt0 three_devices) = None"
  "bluetoothDevices (snd (parse rt0 three_devices)) =
     [(''AA:BB:CC:DD:EE:FF'',
       \<lparr>firstTime = 1000, lastTime = 2000, manufacturer = ''Unknown'', rssi = 5000,
        name = ''Unknown''\<rparr>)]"
  "wirelessAps (snd (parse rt0 three_devices)) =
     [(''00:11:22:33:44:55'',
       \<lparr>firstTime = 1000, lastTime = 2000, manufacturer = ''Unknown'', rssi = 5000,
        channel = 6, auth = ''Unknown'', essid = ''Unknown SSID''\<rparr>)]"
  "wirelessClients (snd (parse rt0 three_devices)) =
     [(''66:77:88:99:AA:BB'',
       \<lparr>firstTime = 1000, lastTime = 2000, manufacturer = ''Unknown'', rssi = - 60,
        bssid = ''Unknown'', probedSsids = [''cafe'']\<rparr>)]"
  by (simp_all add: parse_def three_devices_def type_bt_blank type_ap_blank type_client_blank
      processBluetooth_valid [OF extract_bt_blank] processWirelessAp_valid [OF extract_ap_blank]
      processWirelessClient_valid [OF extract_client_blank]
      mergeBluetooth_def mergeWirelessAp_def mergeWirelessClient_def init_def emit_def)




section \<open>Report rows\<close>

lemma those_map_Some:
  "those (map f xs) = Some ys \<Longrightarrow> map f xs = map Some ys"
  by (induction xs arbitrary: ys) (auto split: option.splits)


lemma rows_cover:
  assumes "those (map f xs) = Some ys"
  shows "(\<forall>y\<in>set ys. \<exists>x\<in>set xs. f x = Some y) \<and> (\<forall>x\<in>set xs. \<exists>y\<in>set ys. f x = Some y)"
proof -
  have "set (map f xs) = set (map Some ys)"
    using those_map_Some [OF assms] by simp
  then have "f ` set xs = Some ` set ys" by simp
  then show ?thesis by (metis (no_types, lifting) image_iff)
qed

lemma bluetoothRow_cells:
  "bluetoothRow rt p = Some row \<Longrightarrow> hd row = CStr (fst p) \<and> last row = rssi_cell (rssi (snd p))"
  by (cases p) (auto simp add: bluetoothRow_def split: Option.bind_splits)



lemma bluetoothRows_cells:
  assumes "bluetoothRows rt st = Some rows"
  shows "(\<forall>row\<in>set rows. \<exists>p\<in>set (bluetoothDevices st).
            hd row = CStr (fst p) \<and> last row = rssi_cell (rssi (snd p))) \<and>
         (\<forall>p\<in>set (bluetoothDevices st). \<exists>row\<in>set rows.
            hd row = CStr (fst p) \<and> last row = rssi_cell (rssi (snd p)))"
proof -
  from assms obtain ys where ys: "those (map (bluetoothRow rt) (bluetoothDevices st)) = Some ys"
    and rows: "rows = sort_key row_key ys"
    by (auto simp add: bluetoothRows_def)
  from rows_cover [OF ys] bluetoothRow_cells [of rt] show ?thesis
    unfolding rows set_sort by meson
qed










lemma rt0_fromtimestamp: "fromtimestamp rt0 e = Some (str_int e)"
  by (simp add: rt0_def)

lemma str_int_1000: "str_int 1000 = ''1000''"
  by code_simp

lemma str_int_2000: "str_int 2000 = ''2000''"
  by code_simp


section \<open>Bluetooth signal\<close>

lemma item_update_other:
  "k' \<noteq> k \<Longrightarrow> item (JObj (AList.update k v kvs)) k' = item (JObj kvs) k'"
  by (simp add: item_def getitem_def update_conv')

lemma item_delete_other:
  "k' \<noteq> k \<Longrightarrow> item (JObj (AList.delete k kvs)) k' = item (JObj kvs) k'"
  by (simp add: item_def getitem_def delete_conv')

lemma extractBluetooth_ignores_signal:
  "extractBluetooth rt (JObj (AList.update ''kismet_device_base_signal'' v kvs)) =
     extractBluetooth rt (JObj kvs)"
  "extractBluetooth rt (JObj (AList.delete ''kismet_device_base_signal'' kvs)) =
     extractBluetooth rt (JObj kvs)"
  by (simp_all add: extractBluetooth_def int_item_def item_update_other item_delete_other)

lemma extractBluetooth_rssi:
  "extractBluetooth rt d = Inr (mac, n) \<Longrightarrow> rssi n = 5000"
  by (auto simp add: extractBluetooth_def split: Option.bind_splits if_splits)

lemma sentinel_processBluetooth:
  assumes inv: "\<forall>p\<in>set (bluetoothDevices st). rssi (snd p) = 5000"
  shows "\<forall>p\<in>set (bluetoothDevices (processBluetooth rt d st)). rssi (snd p) = 5000"
proof (cases "extractBluetooth rt d")
  case (Inl w)
  then show ?thesis using inv by (simp add: processBluetooth_def)
next
  case (Inr r)
  obtain mac n where r: "r = (mac, n)" by (cases r)
  have ex: "extractBluetooth rt d = Inr (mac, n)" using Inr r by simp
  have n: "rssi n = 5000" using ex by (rule extractBluetooth_rssi)
  show ?thesis
  proof (cases "map_of (bluetoothDevices st) mac")
    case None
    show ?thesis
      unfolding processBluetooth_valid [OF ex] mergeBluetooth_new [OF None]
      using update_all [OF inv, of n mac] n by simp
  next
    case (Some e)
    then have "(mac, e) \<in> set (bluetoothDevices st)" by (rule map_of_SomeD)
    with inv have e: "rssi e = 5000" by auto
    let ?new = "e\<lparr>firstTime := min (firstTime n) (firstTime e),
                      lastTime := max (lastTime n) (lastTime e)\<rparr>"
    have "rssi ?new = 5000" using e by simp
    from update_all [OF inv, of ?new mac, OF this] show ?thesis
      unfolding processBluetooth_valid [OF ex] mergeBluetooth_existing [OF Some]
      by simp
  qed
qed

lemma sentinel_parse_loop:
  assumes "\<forall>p\<in>set (bluetoothDevices st). rssi (snd p) = 5000"
  shows "\<forall>p\<in>set (bluetoothDevices (snd (parse_loop rt ds st))). rssi (snd p) = 5000"
  using assms
proof (induction ds arbitrary: st)
  case Nil
  then show ?case by simp
next
  case (Cons d ds)
  note b = sentinel_processBluetooth [OF Cons.prems, of rt d]
  from parse_loop_step [of rt d ds st] show ?case
  proof (elim disjE exE conjE)
    fix e assume "parse_loop rt (d # ds) st = (Some e, st)"
    then show ?thesis using Cons.prems by simp
  next
    fix st' assume "parse_loop rt (d # ds) st = parse_loop rt ds st'"
      and "st' = processBluetooth rt d st"
    then show ?thesis using Cons.IH [of st'] b by simp
  next
    fix st' assume "parse_loop rt (d # ds) st = parse_loop rt ds st'"
      and "st' = processWirelessAp rt d st"
    then show ?thesis using Cons.IH [of st'] Cons.prems by simp
  next
    fix st' assume "parse_loop rt (d # ds) st = parse_loop rt ds st'"
      and "st' = processWirelessClient rt d st"
    then show ?thesis using Cons.IH [of st'] Cons.prems by simp
  next
    fix st' m assume "parse_loop rt (d # ds) st = parse_loop rt ds st'"
      and "st' = emit WARNING m st"
    then show ?thesis using Cons.IH [of st'] Cons.prems by simp
  qed
qed

lemma sentinel_parse:
  assumes "\<forall>p\<in>set (bluetoothDevices st). rssi (snd p) = 5000"
  shows "\<forall>p\<in>set (bluetoothDevices (snd (parse rt st))). rssi (snd p) = 5000"
proof -
  let ?st1 = "emit DEBUG ''Initiated parsing of device data'' st"
  have "\<forall>p\<in>set (bluetoothDevices (snd (parse_loop rt (devices ?st1) ?st1))).
      rssi (snd p) = 5000"
    using assms by (intro sentinel_parse_loop) simp
  then show ?thesis
    by (cases "parse_loop rt (devices ?st1) ?st1")
      (auto simp add: parse_def Let_def split: option.splits)
qed

text \<open>
  C10. A Bluetooth record is extracted with signal 5000 whatever it holds under the
  signal key, or when it has none; a merge leaves the stored signal as it is; so after
  \<^verbatim>\<open>parse\<close>, started with no Bluetooth entry other than ones with signal 5000, every
  Bluetooth entry has signal 5000 and every row of the Bluetooth report ends with
  \<open>Unknown\<close>.
\<close>

theorem bluetooth_signal_unknown:
  "(extractBluetooth rt d = Inr (mac, n) \<longrightarrow> rssi n = 5000) \<and>
   extractBluetooth rt (JObj (AList.update ''kismet_device_base_signal'' v kvs)) =
     extractBluetooth rt (JObj kvs) \<and>
   extractBluetooth rt (JObj (AList.delete ''kismet_device_base_signal'' kvs)) =
     extractBluetooth rt (JObj kvs) \<and>
   (map_of (bluetoothDevices st) mac' = Some e \<longrightarrow>
      map_option rssi (map_of (bluetoothDevices (mergeBluetooth mac' n' st)) mac') =
        Some (rssi e)) \<and>
   ((\<forall>p\<in>set (bluetoothDevices st). rssi (snd p) = 5000) \<longrightarrow>
      (\<forall>p\<in>set (bluetoothDevices (snd (parse rt st))). rssi (snd p) = 5000) \<and>
      (\<forall>rows. bluetoothRows rt (snd (parse rt st)) = Some rows \<longrightarrow>
         (\<forall>row\<in>set rows. last row = CStr ''Unknown'')))"
proof (intro conjI impI allI)
  show "rssi n = 5000" if "extractBluetooth rt d = Inr (mac, n)"
    using that by (rule extractBluetooth_rssi)
  show "map_option rssi (map_of (bluetoothDevices (mergeBluetooth mac' n' st)) mac') =
      Some (rssi e)" if "map_of (bluetoothDevices st) mac' = Some e"
    by (simp add: mergeBluetooth_existing [OF that] update_conv')
next
  assume inv: "\<forall>p\<in>set (bluetoothDevices st). rssi (snd p) = 5000"
  show s: "\<forall>p\<in>set (bluetoothDevices (snd (parse rt st))). rssi (snd p) = 5000"
    using inv by (rule sentinel_parse)
  fix rows assume "bluetoothRows rt (snd (parse rt st)) = Some rows"
  from bluetoothRows_cells [OF this] s
  show "\<forall>row\<in>set rows. last row = CStr ''Unknown''"
    by (fastforce simp add: rssi_cell_def)
qed (simp_all add: extractBluetooth_ignores_signal)


theorem bluetooth_signal_unknown_witness:
  "extractBluetooth rt0 bt_blank =
     Inr (''AA:BB:CC:DD:EE:FF'',
          \<lparr>firstTime = 1000, lastTime = 2000, manufacturer = ''Unknown'', rssi = 5000,
           name = ''Unknown''\<rparr>) \<and>
   bluetoothDevices three_devices = [] \<and>
   bluetoothDevices (snd (parse rt0 three_devices)) \<noteq> [] \<and>
   list_all (\<lambda>p. rssi (snd p) = 5000) (bluetoothDevices (snd (parse rt0 three_devices))) \<and>
   bluetoothRows rt0 (snd (parse rt0 three_devices)) =
     Some [[CStr ''AA:BB:CC:DD:EE:FF'', CStr ''1000'', CStr ''2000'', CStr ''Unknown'',
            CStr ''Unknown'', CStr ''Unknown'']] \<and>
   list_all (\<lambda>row. last row = CStr ''Unknown'')
     [[CStr ''AA:BB:CC:DD:EE:FF'', CStr ''1000'', CStr ''2000'', CStr ''Unknown'',
       CStr ''Unknown'', CStr ''Unknown'']]"
proof -
  have e: "bluetoothDevices three_devices = []"
    by (simp add: three_devices_def init_def)
  then have inv: "\<forall>p\<in>set (bluetoothDevices three_devices). rssi (snd p) = 5000"
    by simp
  have rows: "bluetoothRows rt0 (snd (parse rt0 three_devices)) =
     Some [[CStr ''AA:BB:CC:DD:EE:FF'', CStr ''1000'', CStr ''2000'', CStr ''Unknown'',
            CStr ''Unknown'', CStr ''Unknown'']]"
    by (simp add: bluetoothRows_def bluetoothRow_def parse_three_devices rt0_fromtimestamp
        str_int_1000 str_int_2000 rssi_cell_def)
  have ne: "bluetoothDevices (snd (parse rt0 three_devices)) \<noteq> []"
    by (simp add: parse_three_devices)
  note t = bluetooth_signal_unknown [where rt = rt0 and st = three_devices and d = bt_blank
      and mac = "''AA:BB:CC:DD:EE:FF''"
      and n = "\<lparr>firstTime = 1000, lastTime = 2000, manufacturer = ''Unknown'', rssi = 5000,
                 name = ''Unknown''\<rparr>"]
  from t [THEN conjunct2, THEN conjunct2, THEN conjunct2, THEN conjunct2] inv rows
  have "(\<forall>p\<in>set (bluetoothDevices (snd (parse rt0 three_devices))). rssi (snd p) = 5000) \<and>
    (\<forall>row\<in>set [[CStr ''AA:BB:CC:DD:EE:FF'', CStr ''1000'', CStr ''2000'', CStr ''Unknown'',
            CStr ''Unknown'', CStr ''Unknown'']]. last row = CStr ''Unknown'')"
    by blast
  with extract_bt_blank e ne rows show ?thesis
    by (simp add: list_all_iff)
qed

end
